theory Spec2Isabelle
  imports Main
begin

section \<open>Python values and errors\<close>

text \<open>
  The models of \<^verbatim>\<open>SME_UnB/transductor/models.py\<close> are Django model classes. An
  attribute declared with \<^verbatim>\<open>default=None\<close> holds Python's \<^verbatim>\<open>None\<close> until a value
  is assigned, so a float attribute is an \<open>'f option\<close>. The carrier \<open>'f\<close> of the
  floating-point values is left open: the methods only use its addition, whatever that
  addition rounds to.
\<close>

datatype error = TypeError

text \<open>
  Python's binary \<^verbatim>\<open>+\<close> on two attribute values: \<^verbatim>\<open>None + x\<close>, \<^verbatim>\<open>x + None\<close> and
  \<^verbatim>\<open>None + None\<close> raise \<^verbatim>\<open>TypeError\<close>; two floats are added.
\<close>

definition py_add :: "'f::plus option \<Rightarrow> 'f option \<Rightarrow> error + 'f option" where
  "py_add x y =
     (case x of
        None \<Rightarrow> Inl TypeError
      | Some a \<Rightarrow> (case y of None \<Rightarrow> Inl TypeError | Some b \<Rightarrow> Inr (Some (a + b))))"

section \<open>EnergyMeasurements\<close>

text \<open>
  \<^verbatim>\<open>class EnergyMeasurements(Measurements)\<close>: the two inherited columns of
  \<^verbatim>\<open>Measurements\<close>, the foreign key to the transductor (the primary key of the row it
  references) and the fifteen per-phase float columns.
\<close>

record 'f EnergyMeasurements =
  collection_date :: nat
  collection_minute :: "int option"
  transductor :: nat
  voltage_a :: "'f option"
  voltage_b :: "'f option"
  voltage_c :: "'f option"
  current_a :: "'f option"
  current_b :: "'f option"
  current_c :: "'f option"
  active_power_a :: "'f option"
  active_power_b :: "'f option"
  active_power_c :: "'f option"
  reactive_power_a :: "'f option"
  reactive_power_b :: "'f option"
  reactive_power_c :: "'f option"
  apparent_power_a :: "'f option"
  apparent_power_b :: "'f option"
  apparent_power_c :: "'f option"

text \<open>
  The three methods. Each is a call on \<^verbatim>\<open>self\<close>: it returns the value of the
  \<^verbatim>\<open>return\<close> statement (or the exception raised on the way) together with the object
  as the call leaves it. \<^verbatim>\<open>a + b + c\<close> is \<^verbatim>\<open>(a + b) + c\<close>, evaluated left to right.
\<close>

definition calculate_total_active_power ::
  "'f::plus EnergyMeasurements \<Rightarrow> (error + 'f option) \<times> 'f EnergyMeasurements" where
  "calculate_total_active_power self =
     ((case py_add (active_power_a self) (active_power_b self) of
         Inl e \<Rightarrow> Inl e
       | Inr ab \<Rightarrow> py_add ab (active_power_c self)), self)"

definition calculate_total_reactive_power ::
  "'f::plus EnergyMeasurements \<Rightarrow> (error + 'f option) \<times> 'f EnergyMeasurements" where
  "calculate_total_reactive_power self =
     ((case py_add (reactive_power_a self) (reactive_power_b self) of
         Inl e \<Rightarrow> Inl e
       | Inr ab \<Rightarrow> py_add ab (reactive_power_c self)), self)"

definition calculate_total_apparent_power ::
  "'f::plus EnergyMeasurements \<Rightarrow> (error + 'f option) \<times> 'f EnergyMeasurements" where
  "calculate_total_apparent_power self =
     (let ap_phase_a = apparent_power_a self;
          ap_phase_b = apparent_power_b self;
          ap_phase_c = apparent_power_c self
      in ((case py_add ap_phase_a ap_phase_b of
             Inl e \<Rightarrow> Inl e
           | Inr ab \<Rightarrow> py_add ab ap_phase_c), self))"


section \<open>Python floats\<close>

text \<open>
  A Python \<^verbatim>\<open>float\<close> is an IEEE 754 binary64 value. A finite value is kept as the
  three fields of its encoding: the sign bit, the 11-bit biased exponent (0 to 2046) and
  the 52-bit fraction; the NaNs are one value. Addition is the exact sum rounded to the
  nearest representable value, ties to even.
\<close>

datatype pyfloat = NaN | Infinity bool | Finite bool nat nat

text \<open>The number of binary digits of \<open>n\<close> (Python's \<^verbatim>\<open>int.bit_length\<close>).\<close>

fun bit_length :: "nat \<Rightarrow> nat" where
  "bit_length n = (if n = 0 then 0 else Suc (bit_length (n div 2)))"

declare bit_length.simps [simp del]

definition significand :: "nat \<Rightarrow> nat \<Rightarrow> nat" where
  "significand e f = (if e = 0 then f else 2 ^ 52 + f)"

text \<open>
  \<open>round_pack s m e\<close> is the float nearest to \<open>\<plusminus> m * 2 ^ (e - 1075)\<close>, for
  \<open>0 < m\<close> and \<open>1 \<le> e\<close>.
\<close>

definition round_pack :: "bool \<Rightarrow> nat \<Rightarrow> nat \<Rightarrow> pyfloat" where
  "round_pack s m e =
     (let n = bit_length m in
      if n \<le> 53 then
        (let k = min (53 - n) (e - 1); M = m * 2 ^ k; E = e - k
         in if M < 2 ^ 52 then Finite s 0 M
            else if 2047 \<le> E then Infinity s
            else Finite s E (M - 2 ^ 52))
      else
        (let k = n - 53; q = m div 2 ^ k; r = m mod 2 ^ k; half = 2 ^ (k - 1);
             q' = (if half < r \<or> (r = half \<and> odd q) then q + 1 else q);
             M = (if q' = 2 ^ 53 then 2 ^ 52 else q');
             E = (if q' = 2 ^ 53 then e + k + 1 else e + k)
         in if 2047 \<le> E then Infinity s else Finite s E (M - 2 ^ 52)))"

fun float_add :: "pyfloat \<Rightarrow> pyfloat \<Rightarrow> pyfloat" where
  "float_add NaN y = NaN"
| "float_add x NaN = NaN"
| "float_add (Infinity s) (Infinity t) = (if s = t then Infinity s else NaN)"
| "float_add (Infinity s) (Finite t e f) = Infinity s"
| "float_add (Finite s e f) (Infinity t) = Infinity t"
| "float_add (Finite sx ex fx) (Finite sy ey fy) =
     (let Ex = max 1 ex; Ey = max 1 ey; E0 = min Ex Ey;
          X = int (significand ex fx * 2 ^ (Ex - E0));
          Y = int (significand ey fy * 2 ^ (Ey - E0));
          S = (if sx then - X else X) + (if sy then - Y else Y)
      in if S = 0 then Finite (sx \<and> sy) 0 0
         else round_pack (S < 0) (nat \<bar>S\<bar>) E0)"

instantiation pyfloat :: plus
begin

definition plus_pyfloat :: "pyfloat \<Rightarrow> pyfloat \<Rightarrow> pyfloat" where
  "plus_pyfloat x y = float_add x y"

instance ..

end

text \<open>The literals \<^verbatim>\<open>1.0\<close>, \<^verbatim>\<open>2.0\<close>, \<^verbatim>\<open>3.0\<close> and \<^verbatim>\<open>6.0\<close>.\<close>

definition float_1 :: pyfloat where "float_1 = Finite False 1023 0"
definition float_2 :: pyfloat where "float_2 = Finite False 1024 0"
definition float_3 :: pyfloat where "float_3 = Finite False 1024 (2 ^ 51)"
definition float_6 :: pyfloat where "float_6 = Finite False 1025 (2 ^ 51)"

section \<open>Regular expressions\<close>

text \<open>
  The part of Python's \<^verbatim>\<open>re\<close> syntax that the pattern of \<^verbatim>\<open>ip_address\<close> uses: a literal
  character (\<^verbatim>\<open>\.\<close>), a character range (\<^verbatim>\<open>[0-9]\<close>), the anchors \<^verbatim>\<open>^\<close> and \<^verbatim>\<open>$\<close>,
  concatenation and the bounded repetition \<^verbatim>\<open>{m,n}\<close>. A non-capturing group
  \<^verbatim>\<open>(?:...)\<close> only brackets.
\<close>

datatype regex =
    Lit char
  | Range char char
  | Bol
  | Eol
  | Seq regex regex
  | Repeat regex nat nat

text \<open>
  A matcher state is the position reached and the input that remains. \<open>ends r st\<close>
  lists every state in which a match of \<open>r\<close> that starts in \<open>st\<close> can end; the
  backtracking matcher of \<^verbatim>\<open>re\<close> finds a match exactly when one of them exists.
  Without the \<^verbatim>\<open>MULTILINE\<close> flag \<^verbatim>\<open>^\<close> matches at position 0 only, and \<^verbatim>\<open>$\<close> matches at
  the end of the input and also just before a newline that is the last character.
\<close>

type_synonym mstate = "nat \<times> string"

fun iter :: "('s \<Rightarrow> 's list) \<Rightarrow> nat \<Rightarrow> nat \<Rightarrow> 's \<Rightarrow> 's list" where
  "iter step 0 0 st = [st]"
| "iter step 0 (Suc h) st = st # concat (map (iter step 0 h) (step st))"
| "iter step (Suc l) 0 st = []"
| "iter step (Suc l) (Suc h) st = concat (map (iter step l h) (step st))"

definition in_range :: "char \<Rightarrow> char \<Rightarrow> char \<Rightarrow> bool" where
  "in_range lo hi c \<longleftrightarrow> (of_char lo :: nat) \<le> of_char c \<and> (of_char c :: nat) \<le> of_char hi"

definition newline :: char where
  "newline = CHR 0x0A"

fun ends :: "regex \<Rightarrow> mstate \<Rightarrow> mstate list" where
  "ends (Lit c) (i, s) =
     (case s of [] \<Rightarrow> [] | x # xs \<Rightarrow> if x = c then [(Suc i, xs)] else [])"
| "ends (Range lo hi) (i, s) =
     (case s of [] \<Rightarrow> [] | x # xs \<Rightarrow> if in_range lo hi x then [(Suc i, xs)] else [])"
| "ends Bol (i, s) = (if i = 0 then [(i, s)] else [])"
| "ends Eol (i, s) = (if s = [] \<or> s = [newline] then [(i, s)] else [])"
| "ends (Seq r1 r2) st = concat (map (ends r2) (ends r1 st))"
| "ends (Repeat r m n) st = iter (ends r) m n st"

text \<open>\<^verbatim>\<open>regex.search(value)\<close>: a match may start at any position of the input.\<close>

definition search :: "regex \<Rightarrow> string \<Rightarrow> bool" where
  "search r s = list_ex (\<lambda>i. ends r (i, drop i s) \<noteq> []) [0..<Suc (length s)]"

section \<open>Field validation\<close>

text \<open>
  What Django's model validation does with the string fields of \<^verbatim>\<open>Transductor\<close>.
  \<^verbatim>\<open>Field.clean\<close> first runs \<^verbatim>\<open>validate\<close>, which raises \<^verbatim>\<open>blank\<close> for the empty string
  of a field declared without \<^verbatim>\<open>blank=True\<close>, then \<^verbatim>\<open>run_validators\<close>, which calls
  every validator of the field and collects the errors. A \<^verbatim>\<open>CharField\<close> appends a
  \<^verbatim>\<open>MaxLengthValidator\<close> for its \<^verbatim>\<open>max_length\<close> to the validators it is declared with. A
  \<^verbatim>\<open>TextField\<close> adds none: its \<^verbatim>\<open>max_length\<close> only reaches the widget of a generated form.
\<close>

datatype validation_error =
    Invalid string string
  | MaxLength nat
  | Blank
  | ItemInvalid nat
  | NestedArrayMismatch

datatype validator =
    RegexValidator regex string string
  | MaxLengthValidator nat

fun call_validator :: "validator \<Rightarrow> string \<Rightarrow> validation_error list" where
  "call_validator (RegexValidator r message code) v =
     (if search r v then [] else [Invalid message code])"
| "call_validator (MaxLengthValidator limit) v =
     (if limit < length v then [MaxLength limit] else [])"

datatype field =
    CharField nat bool "validator list"
  | TextField nat

fun validators :: "field \<Rightarrow> validator list" where
  "validators (CharField max_length unique vs) = vs @ [MaxLengthValidator max_length]"
| "validators (TextField max_length) = []"

definition validate :: "field \<Rightarrow> string \<Rightarrow> validation_error list" where
  "validate f v = (if v = [] then [Blank] else [])"

definition run_validators :: "field \<Rightarrow> string \<Rightarrow> validation_error list" where
  "run_validators f v =
     (if v = [] then [] else concat (map (\<lambda>x. call_validator x v) (validators f)))"

definition clean :: "field \<Rightarrow> string \<Rightarrow> validation_error list + string" where
  "clean f v =
     (case validate f v of
        [] \<Rightarrow> (case run_validators f v of [] \<Rightarrow> Inr v | e # es \<Rightarrow> Inl (e # es))
      | e # es \<Rightarrow> Inl (e # es))"

subsection \<open>The string fields of Transductor\<close>

text \<open>
  \<^verbatim>\<open>'^(?:[0-9]{1,3}\.){3}[0-9]{1,3}$'\<close>, the pattern of the validator of \<^verbatim>\<open>ip_address\<close>.
\<close>

definition ip_address_regex :: regex where
  "ip_address_regex =
     Seq Bol
       (Seq (Repeat (Seq (Repeat (Range CHR ''0'' CHR ''9'') 1 3) (Lit CHR ''.'')) 3 3)
         (Seq (Repeat (Range CHR ''0'' CHR ''9'') 1 3) Eol))"

definition ip_address_field :: field where
  "ip_address_field =
     CharField 15 True
       [RegexValidator ip_address_regex ''Incorrect IP address format'' ''invalid_ip_address'']"

definition description_field :: field where
  "description_field = TextField 150"

subsection \<open>The dotted-quad pattern as the specification words it\<close>

text \<open>
  The specification's dotted quad: four groups of one to three decimal digits, separated
  by single dots, and nothing else. \<open>split_on\<close> is Python's \<^verbatim>\<open>str.split\<close> with a
  separator.
\<close>

fun split_on :: "char \<Rightarrow> string \<Rightarrow> string list" where
  "split_on c [] = [[]]"
| "split_on c (x # xs) =
     (if x = c then [] # split_on c xs
      else (case split_on c xs of [] \<Rightarrow> [[x]] | p # ps \<Rightarrow> (x # p) # ps))"

definition is_digit :: "char \<Rightarrow> bool" where
  "is_digit c \<longleftrightarrow> c \<in> set ''0123456789''"

definition octet_digits :: "string \<Rightarrow> bool" where
  "octet_digits a \<longleftrightarrow> 1 \<le> length a \<and> length a \<le> 3 \<and> list_all is_digit a"

definition spec_dotted_quad :: "string \<Rightarrow> bool" where
  "spec_dotted_quad s =
     (let parts = split_on CHR ''.'' s in length parts = 4 \<and> list_all octet_digits parts)"

subsection \<open>The register map of TransductorModel\<close>

text \<open>
  \<^verbatim>\<open>register_addresses = ArrayField(ArrayField(models.IntegerField()))\<close>: a list of
  lists of integers. Neither \<^verbatim>\<open>ArrayField\<close> is given a \<^verbatim>\<open>size\<close>, so no validator
  bounds a length; \<open>limit\<close> and \<open>inner_limit\<close> below are that absent argument,
  \<open>None\<close> at both levels.

  \<^verbatim>\<open>ArrayField.validate\<close> rejects an empty array as blank, reports the first item its base
  field does not validate as \<^verbatim>\<open>item_invalid\<close>, and, when the base field is an array
  itself, rejects items of different lengths (\<^verbatim>\<open>nested_array_mismatch\<close>).
  \<^verbatim>\<open>ArrayField.run_validators\<close> checks a declared size and then runs the validators of
  the base field on every item. An \<^verbatim>\<open>IntegerField\<close> value is validated against the range
  of the database column.
\<close>

fun first_invalid :: "('a \<Rightarrow> validation_error list) \<Rightarrow> nat \<Rightarrow> 'a list \<Rightarrow> validation_error list"
  where
  "first_invalid base i [] = []"
| "first_invalid base i (x # xs) =
     (case base x of [] \<Rightarrow> first_invalid base (Suc i) xs | e # es \<Rightarrow> [ItemInvalid i])"

definition integer_run_validators :: "int \<Rightarrow> validation_error list" where
  "integer_run_validators n =
     (if n < - 2147483648 \<or> 2147483647 < n then [Invalid ''out of range'' ''min_max_value'']
      else [])"

definition inner_array_validate :: "int list \<Rightarrow> validation_error list" where
  "inner_array_validate v = (if v = [] then [Blank] else [])"

definition inner_array_run_validators :: "nat option \<Rightarrow> int list \<Rightarrow> validation_error list"
  where
  "inner_array_run_validators limit v =
     (if v = [] then []
      else (case limit of
              None \<Rightarrow> first_invalid integer_run_validators 0 v
            | Some n \<Rightarrow> (if n < length v then [MaxLength n]
                         else first_invalid integer_run_validators 0 v)))"

definition array_validate :: "int list list \<Rightarrow> validation_error list" where
  "array_validate v =
     (if v = [] then [Blank]
      else (case first_invalid inner_array_validate 0 v of
              [] \<Rightarrow> (if 1 < length (remdups (map length v)) then [NestedArrayMismatch] else [])
            | e # es \<Rightarrow> e # es))"

definition array_run_validators ::
  "nat option \<Rightarrow> nat option \<Rightarrow> int list list \<Rightarrow> validation_error list" where
  "array_run_validators limit inner_limit v =
     (if v = [] then []
      else (case limit of
              None \<Rightarrow> first_invalid (inner_array_run_validators inner_limit) 0 v
            | Some n \<Rightarrow> (if n < length v then [MaxLength n]
                         else first_invalid (inner_array_run_validators inner_limit) 0 v)))"

definition array_clean ::
  "nat option \<Rightarrow> nat option \<Rightarrow> int list list \<Rightarrow> validation_error list + int list list" where
  "array_clean limit inner_limit v =
     (case array_validate v of
        [] \<Rightarrow> (case array_run_validators limit inner_limit v of
                 [] \<Rightarrow> Inr v
               | e # es \<Rightarrow> Inl (e # es))
      | e # es \<Rightarrow> Inl (e # es))"

definition clean_register_addresses :: "int list list \<Rightarrow> validation_error list + int list list"
  where
  "clean_register_addresses v = array_clean None None v"

section \<open>Stored rows\<close>

text \<open>
  The tables of the three concrete models, each a list of rows under their primary keys.
  \<^verbatim>\<open>Transductor\<close> is abstract: its columns are those of \<^verbatim>\<open>EnergyTransductor\<close>, which adds
  none. A foreign key holds the primary key of the row it references.
\<close>

record TransductorModel =
  name :: string
  internet_protocol :: string
  serial_protocol :: string
  register_addresses :: "int list list"

record Transductor =
  model :: nat
  serie_number :: "int option"
  ip_address :: string
  description :: string
  creation_date :: nat

type_synonym EnergyTransductor = Transductor

record 'f db =
  transductor_models :: "(nat \<times> TransductorModel) list"
  energy_transductors :: "(nat \<times> EnergyTransductor) list"
  energy_measurements :: "(nat \<times> 'f EnergyMeasurements) list"

definition empty_db :: "'f db" where
  "empty_db = \<lparr>transductor_models = [], energy_transductors = [], energy_measurements = []\<rparr>"

datatype db_error = IntegrityError

text \<open>
  What the database does with the statements the ORM sends. The constraints are the ones
  the declarations create: a primary key per table, \<^verbatim>\<open>unique=True\<close> on
  \<^verbatim>\<open>TransductorModel.name\<close> and on \<^verbatim>\<open>ip_address\<close>, the two foreign keys, and \<^verbatim>\<open>NOT NULL\<close>
  on every column (no field is declared with \<^verbatim>\<open>null=True\<close>). A statement that violates
  one raises \<^verbatim>\<open>IntegrityError\<close> and changes nothing. Rows are values of their column
  types; the length limits of the \<^verbatim>\<open>varchar\<close> columns are not part of this model.
  \<^verbatim>\<open>Model.save\<close> does not run the field validators.

  \<^verbatim>\<open>on_delete=models.CASCADE\<close> (declared for \<^verbatim>\<open>EnergyMeasurements.transductor\<close>, and the
  default of \<^verbatim>\<open>ForeignKey(TransductorModel)\<close> in this Django version): deleting a row
  first deletes the rows that reference it.
\<close>

definition pks :: "(nat \<times> 'r) list \<Rightarrow> nat list" where
  "pks tbl = map fst tbl"

definition update_row :: "nat \<Rightarrow> 'r \<Rightarrow> (nat \<times> 'r) list \<Rightarrow> (nat \<times> 'r) list" where
  "update_row pk row tbl = map (\<lambda>(k, r). if k = pk then (k, row) else (k, r)) tbl"

definition delete_row :: "nat \<Rightarrow> (nat \<times> 'r) list \<Rightarrow> (nat \<times> 'r) list" where
  "delete_row pk tbl = filter (\<lambda>(k, r). k \<noteq> pk) tbl"

definition others :: "nat \<Rightarrow> (nat \<times> 'r) list \<Rightarrow> 'r list" where
  "others pk tbl = map snd (filter (\<lambda>(k, r). k \<noteq> pk) tbl)"

definition populated :: "'f EnergyMeasurements \<Rightarrow> bool" where
  "populated m \<longleftrightarrow>
     collection_minute m \<noteq> None
     \<and> voltage_a m \<noteq> None \<and> voltage_b m \<noteq> None \<and> voltage_c m \<noteq> None
     \<and> current_a m \<noteq> None \<and> current_b m \<noteq> None \<and> current_c m \<noteq> None
     \<and> active_power_a m \<noteq> None \<and> active_power_b m \<noteq> None \<and> active_power_c m \<noteq> None
     \<and> reactive_power_a m \<noteq> None \<and> reactive_power_b m \<noteq> None
     \<and> reactive_power_c m \<noteq> None
     \<and> apparent_power_a m \<noteq> None \<and> apparent_power_b m \<noteq> None
     \<and> apparent_power_c m \<noteq> None"

definition insert_transductor_model ::
  "nat \<Rightarrow> TransductorModel \<Rightarrow> 'f db \<Rightarrow> db_error option \<times> 'f db" where
  "insert_transductor_model pk row d =
     (if pk \<in> set (pks (transductor_models d))
         \<or> name row \<in> set (map (name \<circ> snd) (transductor_models d))
      then (Some IntegrityError, d)
      else (None, d\<lparr>transductor_models := transductor_models d @ [(pk, row)]\<rparr>))"

definition update_transductor_model ::
  "nat \<Rightarrow> TransductorModel \<Rightarrow> 'f db \<Rightarrow> db_error option \<times> 'f db" where
  "update_transductor_model pk row d =
     (if pk \<notin> set (pks (transductor_models d)) then (None, d)
      else if name row \<in> set (map name (others pk (transductor_models d)))
      then (Some IntegrityError, d)
      else (None, d\<lparr>transductor_models := update_row pk row (transductor_models d)\<rparr>))"

definition insert_energy_transductor ::
  "nat \<Rightarrow> EnergyTransductor \<Rightarrow> 'f db \<Rightarrow> db_error option \<times> 'f db" where
  "insert_energy_transductor pk row d =
     (if pk \<in> set (pks (energy_transductors d))
         \<or> ip_address row \<in> set (map (ip_address \<circ> snd) (energy_transductors d))
         \<or> model row \<notin> set (pks (transductor_models d))
         \<or> serie_number row = None
      then (Some IntegrityError, d)
      else (None, d\<lparr>energy_transductors := energy_transductors d @ [(pk, row)]\<rparr>))"

definition update_energy_transductor ::
  "nat \<Rightarrow> EnergyTransductor \<Rightarrow> 'f db \<Rightarrow> db_error option \<times> 'f db" where
  "update_energy_transductor pk row d =
     (if pk \<notin> set (pks (energy_transductors d)) then (None, d)
      else if ip_address row \<in> set (map ip_address (others pk (energy_transductors d)))
         \<or> model row \<notin> set (pks (transductor_models d))
         \<or> serie_number row = None
      then (Some IntegrityError, d)
      else (None, d\<lparr>energy_transductors := update_row pk row (energy_transductors d)\<rparr>))"

definition insert_energy_measurements ::
  "nat \<Rightarrow> 'f EnergyMeasurements \<Rightarrow> 'f db \<Rightarrow> db_error option \<times> 'f db" where
  "insert_energy_measurements pk row d =
     (if pk \<in> set (pks (energy_measurements d))
         \<or> transductor row \<notin> set (pks (energy_transductors d))
         \<or> \<not> populated row
      then (Some IntegrityError, d)
      else (None, d\<lparr>energy_measurements := energy_measurements d @ [(pk, row)]\<rparr>))"

definition update_energy_measurements ::
  "nat \<Rightarrow> 'f EnergyMeasurements \<Rightarrow> 'f db \<Rightarrow> db_error option \<times> 'f db" where
  "update_energy_measurements pk row d =
     (if pk \<notin> set (pks (energy_measurements d)) then (None, d)
      else if transductor row \<notin> set (pks (energy_transductors d)) \<or> \<not> populated row
      then (Some IntegrityError, d)
      else (None, d\<lparr>energy_measurements := update_row pk row (energy_measurements d)\<rparr>))"

definition delete_energy_measurements :: "nat \<Rightarrow> 'f db \<Rightarrow> db_error option \<times> 'f db" where
  "delete_energy_measurements pk d =
     (None, d\<lparr>energy_measurements := delete_row pk (energy_measurements d)\<rparr>)"

definition delete_energy_transductor :: "nat \<Rightarrow> 'f db \<Rightarrow> db_error option \<times> 'f db" where
  "delete_energy_transductor pk d =
     (None, d\<lparr>energy_measurements :=
                 filter (\<lambda>(k, m). transductor m \<noteq> pk) (energy_measurements d),
               energy_transductors := delete_row pk (energy_transductors d)\<rparr>)"

definition delete_transductor_model :: "nat \<Rightarrow> 'f db \<Rightarrow> db_error option \<times> 'f db" where
  "delete_transductor_model pk d =
     (let doomed = pks (filter (\<lambda>(k, t). model t = pk) (energy_transductors d))
      in (None, d\<lparr>energy_measurements :=
                      filter (\<lambda>(k, m). transductor m \<notin> set doomed) (energy_measurements d),
                    energy_transductors :=
                      filter (\<lambda>(k, t). model t \<noteq> pk) (energy_transductors d),
                    transductor_models := delete_row pk (transductor_models d)\<rparr>))"

text \<open>A history of the database is a sequence of statements run from the empty state.\<close>

datatype 'f statement =
    InsertModel nat TransductorModel
  | UpdateModel nat TransductorModel
  | DeleteModel nat
  | InsertTransductor nat EnergyTransductor
  | UpdateTransductor nat EnergyTransductor
  | DeleteTransductor nat
  | InsertMeasurements nat "'f EnergyMeasurements"
  | UpdateMeasurements nat "'f EnergyMeasurements"
  | DeleteMeasurements nat

fun execute :: "'f statement \<Rightarrow> 'f db \<Rightarrow> db_error option \<times> 'f db" where
  "execute (InsertModel pk row) d = insert_transductor_model pk row d"
| "execute (UpdateModel pk row) d = update_transductor_model pk row d"
| "execute (DeleteModel pk) d = delete_transductor_model pk d"
| "execute (InsertTransductor pk row) d = insert_energy_transductor pk row d"
| "execute (UpdateTransductor pk row) d = update_energy_transductor pk row d"
| "execute (DeleteTransductor pk) d = delete_energy_transductor pk d"
| "execute (InsertMeasurements pk row) d = insert_energy_measurements pk row d"
| "execute (UpdateMeasurements pk row) d = update_energy_measurements pk row d"
| "execute (DeleteMeasurements pk) d = delete_energy_measurements pk d"

fun run :: "'f statement list \<Rightarrow> 'f db \<Rightarrow> 'f db" where
  "run [] d = d"
| "run (st # sts) d = run sts (snd (execute st d))"

text \<open>The two properties of a stored state that the claims are about.\<close>

definition names_unique :: "'f db \<Rightarrow> bool" where
  "names_unique d \<longleftrightarrow> distinct (map (name \<circ> snd) (transductor_models d))"

definition measurements_referenced :: "'f db \<Rightarrow> bool" where
  "measurements_referenced d \<longleftrightarrow>
     list_all (\<lambda>(k, m). transductor m \<in> set (pks (energy_transductors d)))
       (energy_measurements d)"

section \<open>Schema migrations\<close>

text \<open>
  The project state of Django's migration framework: for every model, under its
  lower-case name, the list of its fields in order. \<^verbatim>\<open>RemoveField.state_forwards\<close> keeps
  the fields with another name; \<^verbatim>\<open>AddField.state_forwards\<close> appends the new field. Both
  look the model up first, which raises \<^verbatim>\<open>KeyError\<close> for a model the state does not have.
  Applying a migration applies its operations in order. Of a field only what the
  migration writes is kept: a \<^verbatim>\<open>BooleanField\<close> with its default, and for any other
  field the name of its class.
\<close>

datatype field_decl = BooleanField bool | OtherField string

type_synonym model_state = "(string \<times> field_decl) list"

type_synonym project_state = "(string \<times> model_state) list"

datatype migration_error = KeyError

datatype operation =
    RemoveField string string
  | AddField string string field_decl

record Migration =
  dependencies :: "(string \<times> string) list"
  operations :: "operation list"

definition set_model :: "string \<Rightarrow> model_state \<Rightarrow> project_state \<Rightarrow> project_state" where
  "set_model model_name flds st =
     map (\<lambda>(n, fs). if n = model_name then (n, flds) else (n, fs)) st"

fun state_forwards :: "operation \<Rightarrow> project_state \<Rightarrow> migration_error + project_state" where
  "state_forwards (RemoveField model_name field_name) st =
     (case map_of st model_name of
        None \<Rightarrow> Inl KeyError
      | Some flds \<Rightarrow>
          Inr (set_model model_name (filter (\<lambda>(n, f). n \<noteq> field_name) flds) st))"
| "state_forwards (AddField model_name field_name f) st =
     (case map_of st model_name of
        None \<Rightarrow> Inl KeyError
      | Some flds \<Rightarrow> Inr (set_model model_name (flds @ [(field_name, f)]) st))"

fun apply_operations :: "operation list \<Rightarrow> project_state \<Rightarrow> migration_error + project_state"
  where
  "apply_operations [] st = Inr st"
| "apply_operations (operation # rest) st =
     (case state_forwards operation st of
        Inl e \<Rightarrow> Inl e
      | Inr st' \<Rightarrow> apply_operations rest st')"

definition apply_migration :: "Migration \<Rightarrow> project_state \<Rightarrow> migration_error + project_state"
  where
  "apply_migration m st = apply_operations (operations m) st"

text \<open>\<^verbatim>\<open>transductor/migrations/0005_auto_20161012_2000.py\<close>.\<close>

definition migration_0005 :: Migration where
  "migration_0005 =
     \<lparr>dependencies = [(''transductor'', ''0004_energytransductor_working_correctly'')],
      operations =
        [RemoveField ''energytransductor'' ''working_correctly'',
         AddField ''energytransductor'' ''broken'' (BooleanField False)]\<rparr>"

section \<open>Sample values\<close>

text \<open>Concrete records and rows on which the statements below are evaluated.\<close>

definition sample_measurement :: "pyfloat EnergyMeasurements" where
  "sample_measurement =
     \<lparr>collection_date = 0, collection_minute = Some 0, transductor = 1,
      voltage_a = None, voltage_b = None, voltage_c = None,
      current_a = None, current_b = None, current_c = None,
      active_power_a = Some float_1, active_power_b = Some float_2,
      active_power_c = Some float_3,
      reactive_power_a = Some float_1, reactive_power_b = Some float_2,
      reactive_power_c = Some float_3,
      apparent_power_a = Some float_1, apparent_power_b = Some float_2,
      apparent_power_c = Some float_3\<rparr>"

definition unset_measurement :: "pyfloat EnergyMeasurements" where
  "unset_measurement =
     sample_measurement\<lparr>active_power_c := None, reactive_power_a := None,
       apparent_power_b := None\<rparr>"

definition other_measurement :: "pyfloat EnergyMeasurements" where
  "other_measurement =
     sample_measurement\<lparr>collection_date := 7, collection_minute := Some 30,
       transductor := 2, voltage_a := Some float_1, voltage_b := Some float_2,
       voltage_c := Some float_3, current_a := Some float_6, current_b := Some float_6,
       current_c := Some float_6\<rparr>"

definition sample_model :: TransductorModel where
  "sample_model =
     \<lparr>name = ''Test Name'', internet_protocol = ''UDP'', serial_protocol = ''Modbus RTU'',
      register_addresses = [[68, 0], [70, 1]]\<rparr>"

definition sample_transductor :: EnergyTransductor where
  "sample_transductor =
     \<lparr>model = 1, serie_number = Some 1, ip_address = ''1.1.1.1'',
      description = ''Energy Transductor Test'', creation_date = 0\<rparr>"

definition long_description :: string where
  "long_description = replicate 151 CHR ''a''"

definition sample_db :: "pyfloat db" where
  "sample_db = run [InsertModel 1 sample_model, InsertTransductor 1 sample_transductor] empty_db"

definition full_measurement :: "pyfloat EnergyMeasurements" where
  "full_measurement = other_measurement\<lparr>transductor := 1\<rparr>"

definition state_after_0004 :: project_state where
  "state_after_0004 =
     [(''transductormodel'',
         [(''id'', OtherField ''AutoField''), (''name'', OtherField ''CharField'')]),
      (''energytransductor'',
         [(''id'', OtherField ''AutoField''), (''model'', OtherField ''ForeignKey''),
          (''serie_number'', OtherField ''IntegerField''),
          (''ip_address'', OtherField ''CharField''),
          (''description'', OtherField ''TextField''),
          (''creation_date'', OtherField ''DateTimeField''),
          (''working_correctly'', BooleanField True)])]"

section \<open>Properties of the power totals\<close>

lemma bit_length_0: "bit_length 0 = 0"
  by (simp add: bit_length.simps)

lemma bit_length_Suc_0: "bit_length (Suc 0) = Suc 0"
  by (subst bit_length.simps) (simp add: bit_length_0)

lemma bit_length_numeral: "bit_length (numeral k) = Suc (bit_length (numeral k div 2))"
  by (simp add: bit_length.simps [of "numeral k"])

lemmas float_eval = plus_pyfloat_def significand_def round_pack_def Let_def
  bit_length_0 bit_length_Suc_0 bit_length_numeral

text \<open>The model of addition on known sums: \<^verbatim>\<open>0.1 + 0.2 == 0.30000000000000004\<close>,
  a tie rounded to even (\<^verbatim>\<open>1.0 + 2**-53 == 1.0\<close>), overflow to infinity and a
  subnormal sum.\<close>

lemma float_add_examples:
  "Finite False 0x3FB 0x999999999999A + Finite False 0x3FC 0x999999999999A
     = Finite False 0x3FD 0x3333333333334"
  "Finite False 1023 0 + Finite False 970 0 = Finite False 1023 0"
  "Finite False 2046 (2 ^ 52 - 1) + Finite False 2046 (2 ^ 52 - 1) = Infinity False"
  "Finite False 0 (2 ^ 52 - 1) + Finite False 0 1 = Finite False 1 0"
  by (simp_all add: float_eval)

lemma float_1_2_3: "float_1 + float_2 + float_3 = float_6"
  by (simp add: float_eval float_1_def float_2_def float_3_def float_6_def)

lemma py_add_Some: "py_add (Some a) (Some b) = Inr (Some (a + b))"
  by (simp add: py_add_def)

lemma py_add_None_left: "py_add None y = Inl TypeError"
  by (simp add: py_add_def)

lemma py_add_None_right: "py_add x None = Inl TypeError"
  by (simp add: py_add_def split: option.split)

text \<open>
  Claim C1. When the three phase fields a method reads hold floats \<open>a\<close>, \<open>b\<close> and
  \<open>c\<close>, the method returns \<open>a + b + c\<close>: the active total from the active-power
  fields, the reactive total from the reactive-power fields, the apparent total from the
  apparent-power fields. With binary64 floats and the fields 1.0, 2.0 and 3.0 the active
  total is 6.0.
\<close>

theorem calculate_total_power_sum:
  "(active_power_a m = Some a \<and> active_power_b m = Some b \<and> active_power_c m = Some c
      \<longrightarrow> fst (calculate_total_active_power m) = Inr (Some (a + b + c)))
   \<and> (reactive_power_a m = Some a \<and> reactive_power_b m = Some b \<and> reactive_power_c m = Some c
      \<longrightarrow> fst (calculate_total_reactive_power m) = Inr (Some (a + b + c)))
   \<and> (apparent_power_a m = Some a \<and> apparent_power_b m = Some b \<and> apparent_power_c m = Some c
      \<longrightarrow> fst (calculate_total_apparent_power m) = Inr (Some (a + b + c)))
   \<and> (active_power_a m' = Some float_1 \<and> active_power_b m' = Some float_2
        \<and> active_power_c m' = Some float_3
      \<longrightarrow> fst (calculate_total_active_power m') = Inr (Some float_6))"
  by (simp add: calculate_total_active_power_def calculate_total_reactive_power_def
      calculate_total_apparent_power_def py_add_Some float_1_2_3)

theorem calculate_total_power_sum_witness:
  "fst (calculate_total_active_power sample_measurement) = Inr (Some float_6)
   \<and> fst (calculate_total_reactive_power sample_measurement)
       = Inr (Some (float_1 + float_2 + float_3))
   \<and> fst (calculate_total_apparent_power sample_measurement)
       = Inr (Some (float_1 + float_2 + float_3))"
proof -
  have fields:
    "active_power_a sample_measurement = Some float_1"
    "active_power_b sample_measurement = Some float_2"
    "active_power_c sample_measurement = Some float_3"
    "reactive_power_a sample_measurement = Some float_1"
    "reactive_power_b sample_measurement = Some float_2"
    "reactive_power_c sample_measurement = Some float_3"
    "apparent_power_a sample_measurement = Some float_1"
    "apparent_power_b sample_measurement = Some float_2"
    "apparent_power_c sample_measurement = Some float_3"
    by (simp_all add: sample_measurement_def)
  from calculate_total_power_sum [of sample_measurement float_1 float_2 float_3
      sample_measurement] fields
  show ?thesis by blast
qed

text \<open>
  Claim C2. When at least one of the three phase fields a method reads is \<^verbatim>\<open>None\<close>,
  the call raises (a \<^verbatim>\<open>TypeError\<close>, from the addition that meets the \<^verbatim>\<open>None\<close>) and
  returns no number; the exception is the outcome of the call itself.
\<close>

theorem calculate_total_power_unset:
  "(active_power_a m = None \<or> active_power_b m = None \<or> active_power_c m = None
      \<longrightarrow> fst (calculate_total_active_power m) = Inl TypeError)
   \<and> (reactive_power_a m = None \<or> reactive_power_b m = None \<or> reactive_power_c m = None
      \<longrightarrow> fst (calculate_total_reactive_power m) = Inl TypeError)
   \<and> (apparent_power_a m = None \<or> apparent_power_b m = None \<or> apparent_power_c m = None
      \<longrightarrow> fst (calculate_total_apparent_power m) = Inl TypeError)"
  by (auto simp: calculate_total_active_power_def calculate_total_reactive_power_def
      calculate_total_apparent_power_def py_add_def Let_def split: option.splits sum.splits)

theorem calculate_total_power_unset_witness:
  "fst (calculate_total_active_power unset_measurement) = Inl TypeError
   \<and> fst (calculate_total_reactive_power unset_measurement) = Inl TypeError
   \<and> fst (calculate_total_apparent_power unset_measurement) = Inl TypeError"
proof -
  have fields:
    "active_power_c unset_measurement = None"
    "reactive_power_a unset_measurement = None"
    "apparent_power_b unset_measurement = None"
    by (simp_all add: unset_measurement_def)
  from calculate_total_power_unset [of unset_measurement] fields
  show ?thesis by blast
qed

text \<open>
  Claim C9. Two records that agree on the nine power fields give equal results in each of
  the three methods, whatever their voltage, current, transductor and collection fields
  hold; and each call leaves the record as it found it.
\<close>

theorem calculate_total_power_noninterference:
  "active_power_a m = active_power_a m' \<and> active_power_b m = active_power_b m'
   \<and> active_power_c m = active_power_c m'
   \<and> reactive_power_a m = reactive_power_a m' \<and> reactive_power_b m = reactive_power_b m'
   \<and> reactive_power_c m = reactive_power_c m'
   \<and> apparent_power_a m = apparent_power_a m' \<and> apparent_power_b m = apparent_power_b m'
   \<and> apparent_power_c m = apparent_power_c m'
   \<longrightarrow>
     fst (calculate_total_active_power m) = fst (calculate_total_active_power m')
     \<and> fst (calculate_total_reactive_power m) = fst (calculate_total_reactive_power m')
     \<and> fst (calculate_total_apparent_power m) = fst (calculate_total_apparent_power m')
     \<and> snd (calculate_total_active_power m) = m
     \<and> snd (calculate_total_reactive_power m) = m
     \<and> snd (calculate_total_apparent_power m) = m"
  by (clarsimp simp: calculate_total_active_power_def calculate_total_reactive_power_def
      calculate_total_apparent_power_def Let_def cong: sum.case_cong)

theorem calculate_total_power_noninterference_witness:
  "other_measurement \<noteq> sample_measurement
   \<and> fst (calculate_total_active_power other_measurement)
       = fst (calculate_total_active_power sample_measurement)
   \<and> fst (calculate_total_reactive_power other_measurement)
       = fst (calculate_total_reactive_power sample_measurement)
   \<and> fst (calculate_total_apparent_power other_measurement)
       = fst (calculate_total_apparent_power sample_measurement)
   \<and> snd (calculate_total_active_power other_measurement) = other_measurement
   \<and> snd (calculate_total_reactive_power other_measurement) = other_measurement
   \<and> snd (calculate_total_apparent_power other_measurement) = other_measurement"
proof -
  have agree:
    "active_power_a other_measurement = active_power_a sample_measurement"
    "active_power_b other_measurement = active_power_b sample_measurement"
    "active_power_c other_measurement = active_power_c sample_measurement"
    "reactive_power_a other_measurement = reactive_power_a sample_measurement"
    "reactive_power_b other_measurement = reactive_power_b sample_measurement"
    "reactive_power_c other_measurement = reactive_power_c sample_measurement"
    "apparent_power_a other_measurement = apparent_power_a sample_measurement"
    "apparent_power_b other_measurement = apparent_power_b sample_measurement"
    "apparent_power_c other_measurement = apparent_power_c sample_measurement"
    by (simp_all add: other_measurement_def)
  have differ: "other_measurement \<noteq> sample_measurement"
  proof
    assume "other_measurement = sample_measurement"
    then have "transductor other_measurement = transductor sample_measurement" by simp
    then show False by (simp add: other_measurement_def sample_measurement_def)
  qed
  from calculate_total_power_noninterference [of other_measurement sample_measurement]
    agree differ
  show ?thesis by blast
qed

section \<open>Properties of field validation\<close>

subsection \<open>What the pattern of ip_address matches\<close>

lemma in_range_digit: "in_range CHR ''0'' CHR ''9'' c \<longleftrightarrow> is_digit c"
  by (cases c) (simp add: in_range_def is_digit_def, presburger?)

lemma mem_ends_Seq:
  "x \<in> set (ends (Seq r1 r2) st) \<longleftrightarrow> (\<exists>st'. st' \<in> set (ends r1 st) \<and> x \<in> set (ends r2 st'))"
  by auto

lemma mem_ends_Lit: "(j, r) \<in> set (ends (Lit c) (i, s)) \<longleftrightarrow> s = c # r \<and> j = Suc i"
  by (auto split: list.splits)

lemma mem_ends_digit:
  "(j, r) \<in> set (ends (Range CHR ''0'' CHR ''9'') (i, s)) \<longleftrightarrow> (\<exists>x. is_digit x \<and> s = x # r \<and> j = Suc i)"
  by (auto simp: in_range_digit split: list.splits)

lemma mem_iter_1_3:
  "x \<in> set (iter step 1 3 st) \<longleftrightarrow>
     x \<in> set (step st) \<or> (\<exists>s1. s1 \<in> set (step st) \<and> (x \<in> set (step s1) \<or> (\<exists>s2. s2 \<in> set (step s1) \<and> x \<in> set (step s2))))"
  by (auto simp: eval_nat_numeral)

lemma mem_iter_3_3:
  "x \<in> set (iter step 3 3 st) \<longleftrightarrow>
     (\<exists>s1 s2. s1 \<in> set (step st) \<and> s2 \<in> set (step s1) \<and> x \<in> set (step s2))"
  by (auto simp: eval_nat_numeral)

lemma octet_digits_cases:
  "octet_digits a \<longleftrightarrow> (\<exists>x. is_digit x \<and> a = [x]) \<or> (\<exists>x y. is_digit x \<and> is_digit y \<and> a = [x, y])
     \<or> (\<exists>x y z. is_digit x \<and> is_digit y \<and> is_digit z \<and> a = [x, y, z])"
proof (cases a)
  case Nil then show ?thesis by (simp add: octet_digits_def)
next
  case (Cons x b)
  show ?thesis
  proof (cases b)
    case Nil with Cons show ?thesis by (simp add: octet_digits_def)
  next
    case (Cons y c)
    note c1 = Cons
    show ?thesis
    proof (cases c)
      case Nil with c1 \<open>a = x # b\<close> show ?thesis by (simp add: octet_digits_def)
    next
      case (Cons z d)
      with c1 \<open>a = x # b\<close> show ?thesis by (cases d) (auto simp add: octet_digits_def)
    qed
  qed
qed

lemma mem_ends_octet:
  "(j, r) \<in> set (ends (Repeat (Range CHR ''0'' CHR ''9'') 1 3) (i, s)) \<longleftrightarrow>
     (\<exists>a. octet_digits a \<and> s = a @ r \<and> j = i + length a)"
proof -
  have *: "ends (Repeat (Range CHR ''0'' CHR ''9'') 1 3) (i, s)
      = iter (ends (Range CHR ''0'' CHR ''9'')) 1 3 (i, s)"
    by simp
  show ?thesis
    unfolding * mem_iter_1_3 octet_digits_cases
    by (auto simp: mem_ends_digit simp del: ends.simps)
qed

lemmas mem_ends_octet' = mem_ends_octet [unfolded One_nat_def]

lemma mem_ends_group:
  "(j, r) \<in> set (ends (Seq (Repeat (Range CHR ''0'' CHR ''9'') 1 3) (Lit CHR ''.'')) (i, s)) \<longleftrightarrow>
     (\<exists>a. octet_digits a \<and> s = a @ CHR ''.'' # r \<and> j = Suc (i + length a))"
proof -
  have "(j, r) \<in> set (ends (Seq (Repeat (Range CHR ''0'' CHR ''9'') 1 3) (Lit CHR ''.'')) (i, s)) \<longleftrightarrow>
     (\<exists>j' r'. (j', r') \<in> set (ends (Repeat (Range CHR ''0'' CHR ''9'') 1 3) (i, s))
        \<and> (j, r) \<in> set (ends (Lit CHR ''.'') (j', r')))"
    unfolding mem_ends_Seq by auto
  also have "\<dots> \<longleftrightarrow> (\<exists>a. octet_digits a \<and> s = a @ CHR ''.'' # r \<and> j = Suc (i + length a))"
    unfolding mem_ends_octet mem_ends_Lit by blast
  finally show ?thesis .
qed

lemmas mem_ends_group' = mem_ends_group [unfolded One_nat_def]

lemma mem_ends_groups:
  "(j, r) \<in> set (ends (Repeat (Seq (Repeat (Range CHR ''0'' CHR ''9'') 1 3) (Lit CHR ''.'')) 3 3) (i, s)) \<longleftrightarrow>
     (\<exists>a b c. octet_digits a \<and> octet_digits b \<and> octet_digits c
        \<and> s = a @ CHR ''.'' # b @ CHR ''.'' # c @ CHR ''.'' # r
        \<and> j = i + length a + length b + length c + 3)"
  (is "?L \<longleftrightarrow> ?R")
proof -
  let ?G = "Seq (Repeat (Range CHR ''0'' CHR ''9'') 1 3) (Lit CHR ''.'')"
  have *: "ends (Repeat ?G 3 3) (i, s) = iter (ends ?G) 3 3 (i, s)"
    by simp
  show ?thesis
  proof
    assume ?L
    then obtain s1 s2 where 1: "s1 \<in> set (ends ?G (i, s))" and 2: "s2 \<in> set (ends ?G s1)"
      and 3: "(j, r) \<in> set (ends ?G s2)"
      unfolding * mem_iter_3_3 by blast
    obtain j1 r1 where s1: "s1 = (j1, r1)" by (cases s1)
    obtain j2 r2 where s2: "s2 = (j2, r2)" by (cases s2)
    from 1 [unfolded s1 mem_ends_group]
    obtain a where a: "octet_digits a" "s = a @ CHR ''.'' # r1" "j1 = Suc (i + length a)"
      by blast
    from 2 [unfolded s1 s2 mem_ends_group]
    obtain b where b: "octet_digits b" "r1 = b @ CHR ''.'' # r2" "j2 = Suc (j1 + length b)"
      by blast
    from 3 [unfolded s2 mem_ends_group]
    obtain c where c: "octet_digits c" "r2 = c @ CHR ''.'' # r" "j = Suc (j2 + length c)"
      by blast
    from a b c show ?R
      by (intro exI [of _ a] exI [of _ b] exI [of _ c]) simp
  next
    assume ?R
    then obtain a b c where abc: "octet_digits a" "octet_digits b" "octet_digits c"
      "s = a @ CHR ''.'' # b @ CHR ''.'' # c @ CHR ''.'' # r"
      "j = i + length a + length b + length c + 3"
      by blast
    let ?s1 = "(Suc (i + length a), b @ CHR ''.'' # c @ CHR ''.'' # r)"
    let ?s2 = "(Suc (Suc (i + length a) + length b), c @ CHR ''.'' # r)"
    have 1: "?s1 \<in> set (ends ?G (i, s))"
      unfolding mem_ends_group using abc by blast
    have 2: "?s2 \<in> set (ends ?G ?s1)"
      unfolding mem_ends_group using abc by blast
    have "(Suc (Suc (Suc (i + length a) + length b) + length c), r) \<in> set (ends ?G ?s2)"
      unfolding mem_ends_group using abc by blast
    moreover have "Suc (Suc (Suc (i + length a) + length b) + length c) = j"
      using abc by simp
    ultimately have 3: "(j, r) \<in> set (ends ?G ?s2)" by simp
    from 1 2 3 show ?L
      unfolding * mem_iter_3_3 by blast
  qed
qed

lemma mem_ends_Eol: "x \<in> set (ends Eol (i, s)) \<longleftrightarrow> x = (i, s) \<and> (s = [] \<or> s = [newline])"
  by auto

lemma mem_ends_Bol: "x \<in> set (ends Bol (i, s)) \<longleftrightarrow> x = (i, s) \<and> i = 0"
  by auto

lemma ends_ip_address_regex:
  "ends ip_address_regex (i, s) \<noteq> [] \<longleftrightarrow>
     i = 0 \<and> (\<exists>a b c d r. octet_digits a \<and> octet_digits b \<and> octet_digits c \<and> octet_digits d
        \<and> (r = [] \<or> r = [newline])
        \<and> s = a @ CHR ''.'' # b @ CHR ''.'' # c @ CHR ''.'' # d @ r)"
  (is "?L \<longleftrightarrow> ?R")
proof -
  let ?O = "Repeat (Range CHR ''0'' CHR ''9'') 1 3"
  let ?G3 = "Repeat (Seq ?O (Lit CHR ''.'')) 3 3"
  have ne: "?L \<longleftrightarrow> (\<exists>x. x \<in> set (ends ip_address_regex (i, s)))"
    by (cases "ends ip_address_regex (i, s)") auto
  show ?thesis
  proof
    assume ?L
    with ne have "\<exists>x. x \<in> set (ends ip_address_regex (i, s))" by blast
    then obtain x s1 s2 s3 where 1: "s1 \<in> set (ends Bol (i, s))"
      and 2: "s2 \<in> set (ends ?G3 s1)" and 3: "s3 \<in> set (ends ?O s2)"
      and 4: "x \<in> set (ends Eol s3)"
      unfolding ip_address_regex_def mem_ends_Seq by blast
    from 1 [unfolded mem_ends_Bol] have i: "i = 0" and s1: "s1 = (i, s)" by auto
    obtain j2 r2 where s2: "s2 = (j2, r2)" by (cases s2)
    obtain j3 r3 where s3: "s3 = (j3, r3)" by (cases s3)
    from 2 [unfolded s1 s2 mem_ends_groups]
    obtain a b c where abc: "octet_digits a" "octet_digits b" "octet_digits c"
      "s = a @ CHR ''.'' # b @ CHR ''.'' # c @ CHR ''.'' # r2"
      by blast
    from 3 [unfolded s2 s3 mem_ends_octet]
    obtain d where d: "octet_digits d" "r2 = d @ r3"
      by blast
    from 4 [unfolded s3 mem_ends_Eol] have r3: "r3 = [] \<or> r3 = [newline]" by blast
    from i abc d r3 show ?R by blast
  next
    assume ?R
    then obtain a b c d r where i: "i = 0" and abc: "octet_digits a" "octet_digits b" "octet_digits c"
      and d: "octet_digits d" and r: "r = [] \<or> r = [newline]"
      and s: "s = a @ CHR ''.'' # b @ CHR ''.'' # c @ CHR ''.'' # d @ r"
      by blast
    have 1: "(i, s) \<in> set (ends Bol (i, s))" using i by simp
    have 2: "(i + length a + length b + length c + 3, d @ r) \<in> set (ends ?G3 (i, s))"
      unfolding mem_ends_groups using abc s by blast
    have 3: "(i + length a + length b + length c + 3 + length d, r)
        \<in> set (ends ?O (i + length a + length b + length c + 3, d @ r))"
      unfolding mem_ends_octet using d by blast
    have 4: "(i + length a + length b + length c + 3 + length d, r)
        \<in> set (ends Eol (i + length a + length b + length c + 3 + length d, r))"
      unfolding mem_ends_Eol using r by blast
    from 1 2 3 4 have "\<exists>x. x \<in> set (ends ip_address_regex (i, s))"
      unfolding ip_address_regex_def mem_ends_Seq by blast
    with ne show ?L by blast
  qed
qed

lemma search_ip_address_regex:
  "search ip_address_regex s \<longleftrightarrow>
     (\<exists>a b c d r. octet_digits a \<and> octet_digits b \<and> octet_digits c \<and> octet_digits d
        \<and> (r = [] \<or> r = [newline])
        \<and> s = a @ CHR ''.'' # b @ CHR ''.'' # c @ CHR ''.'' # d @ r)"
proof -
  have "search ip_address_regex s \<longleftrightarrow> (\<exists>i \<le> length s. ends ip_address_regex (i, drop i s) \<noteq> [])"
    unfolding search_def list_ex_iff set_upt Bex_def atLeastLessThan_iff less_Suc_eq_le
    by blast
  also have "\<dots> \<longleftrightarrow> ends ip_address_regex (0, s) \<noteq> []"
  proof
    assume "\<exists>i \<le> length s. ends ip_address_regex (i, drop i s) \<noteq> []"
    then obtain i where "ends ip_address_regex (i, drop i s) \<noteq> []" by blast
    moreover from this have "i = 0" unfolding ends_ip_address_regex by blast
    ultimately show "ends ip_address_regex (0, s) \<noteq> []" by simp
  next
    assume "ends ip_address_regex (0, s) \<noteq> []"
    then have "0 \<le> length s \<and> ends ip_address_regex (0, drop 0 s) \<noteq> []" by simp
    then show "\<exists>i \<le> length s. ends ip_address_regex (i, drop i s) \<noteq> []" by blast
  qed
  finally show ?thesis unfolding ends_ip_address_regex by simp
qed

subsection \<open>The pattern and the dotted quad of the specification\<close>

lemma split_on_nonempty: "split_on c s \<noteq> []"
  by (induction s) (auto split: list.splits)

lemma split_on_last: "c \<notin> set a \<Longrightarrow> split_on c a = [a]"
  by (induction a) auto

lemma split_on_append: "c \<notin> set a \<Longrightarrow> split_on c (a @ c # t) = a # split_on c t"
  by (induction a) auto

lemma split_on_join:
  "split_on c s = p # ps \<Longrightarrow> s = p @ concat (map (\<lambda>q. c # q) ps) \<and> c \<notin> set p"
proof (induction s arbitrary: p ps)
  case Nil
  then show ?case by simp
next
  case (Cons x xs)
  show ?case
  proof (cases "x = c")
    case True
    with Cons.prems have p: "p = []" and ps: "ps = split_on c xs" by auto
    obtain q qs where q: "split_on c xs = q # qs"
      using split_on_nonempty [of c xs] by (cases "split_on c xs") auto
    from Cons.IH [OF q] p ps q True show ?thesis by simp
  next
    case False
    obtain q qs where q: "split_on c xs = q # qs"
      using split_on_nonempty [of c xs] by (cases "split_on c xs") auto
    with Cons.prems False have "p = x # q" "ps = qs" by auto
    with Cons.IH [OF q] False show ?thesis by simp
  qed
qed

lemma is_digit_not_dot: "is_digit x \<Longrightarrow> x \<noteq> CHR ''.'' \<and> x \<noteq> newline"
  by (auto simp: is_digit_def newline_def)

lemma octet_digits_no_dot: "octet_digits a \<Longrightarrow> CHR ''.'' \<notin> set a \<and> newline \<notin> set a"
  using is_digit_not_dot by (auto simp: octet_digits_def list_all_iff)

lemma spec_dotted_quad_iff:
  "spec_dotted_quad s \<longleftrightarrow>
     (\<exists>a b c d. octet_digits a \<and> octet_digits b \<and> octet_digits c \<and> octet_digits d
        \<and> s = a @ CHR ''.'' # b @ CHR ''.'' # c @ CHR ''.'' # d)"
  (is "?L \<longleftrightarrow> ?R")
proof
  assume ?L
  then have len: "length (split_on CHR ''.'' s) = 4"
    and all: "list_all octet_digits (split_on CHR ''.'' s)"
    by (simp_all add: spec_dotted_quad_def Let_def)
  from len obtain a b c d where parts: "split_on CHR ''.'' s = [a, b, c, d]"
    by (auto simp: eval_nat_numeral length_Suc_conv)
  from split_on_join [OF parts] have "s = a @ CHR ''.'' # b @ CHR ''.'' # c @ CHR ''.'' # d"
    by simp
  with all parts show ?R by auto
next
  assume ?R
  then obtain a b c d where o: "octet_digits a" "octet_digits b" "octet_digits c" "octet_digits d"
    and s: "s = a @ CHR ''.'' # b @ CHR ''.'' # c @ CHR ''.'' # d"
    by blast
  from o have "split_on CHR ''.'' s = [a, b, c, d]"
    unfolding s by (simp add: split_on_append split_on_last octet_digits_no_dot)
  with o show ?L by (simp add: spec_dotted_quad_def)
qed

lemma spec_dotted_quad_length: "spec_dotted_quad s \<Longrightarrow> 7 \<le> length s \<and> length s \<le> 15"
  unfolding spec_dotted_quad_iff by (auto simp: octet_digits_def)

lemma spec_dotted_quad_last: "spec_dotted_quad s \<Longrightarrow> s \<noteq> [] \<and> last s \<noteq> newline"
proof -
  assume "spec_dotted_quad s"
  then obtain a b c d where o: "octet_digits d"
    and s: "s = a @ CHR ''.'' # b @ CHR ''.'' # c @ CHR ''.'' # d"
    unfolding spec_dotted_quad_iff by blast
  from o have "d \<noteq> []" by (auto simp: octet_digits_def)
  with s have "last s = last d" by simp
  moreover from o \<open>d \<noteq> []\<close> have "last d \<noteq> newline"
    using octet_digits_no_dot [of d] last_in_set [of d] by metis
  ultimately show ?thesis using s by simp
qed

text \<open>The strings the pattern matches: a dotted quad, or a dotted quad and one newline.\<close>

lemma search_ip_address_regex_iff:
  "search ip_address_regex s \<longleftrightarrow>
     spec_dotted_quad s \<or> (\<exists>t. s = t @ [newline] \<and> spec_dotted_quad t)"
  (is "?L \<longleftrightarrow> ?R")
proof
  assume ?L
  then obtain a b c d r where o: "octet_digits a" "octet_digits b" "octet_digits c" "octet_digits d"
    and r: "r = [] \<or> r = [newline]"
    and s: "s = a @ CHR ''.'' # b @ CHR ''.'' # c @ CHR ''.'' # d @ r"
    unfolding search_ip_address_regex by blast
  let ?t = "a @ CHR ''.'' # b @ CHR ''.'' # c @ CHR ''.'' # d"
  from o have t: "spec_dotted_quad ?t" unfolding spec_dotted_quad_iff by blast
  from r show ?R
  proof
    assume "r = []" with s t show ?R by simp
  next
    assume "r = [newline]"
    with s have "s = ?t @ [newline]" by simp
    with t show ?R by blast
  qed
next
  assume ?R
  then show ?L
  proof
    assume "spec_dotted_quad s"
    then obtain a b c d where "octet_digits a" "octet_digits b" "octet_digits c" "octet_digits d"
      "s = a @ CHR ''.'' # b @ CHR ''.'' # c @ CHR ''.'' # d @ []"
      unfolding spec_dotted_quad_iff by auto
    then show ?L unfolding search_ip_address_regex by blast
  next
    assume "\<exists>t. s = t @ [newline] \<and> spec_dotted_quad t"
    then obtain a b c d where "octet_digits a" "octet_digits b" "octet_digits c" "octet_digits d"
      "s = a @ CHR ''.'' # b @ CHR ''.'' # c @ CHR ''.'' # d @ [newline]"
      unfolding spec_dotted_quad_iff by auto
    then show ?L unfolding search_ip_address_regex by blast
  qed
qed

lemma search_no_trailing_newline:
  "s = [] \<or> last s \<noteq> newline \<Longrightarrow> search ip_address_regex s \<longleftrightarrow> spec_dotted_quad s"
  unfolding search_ip_address_regex_iff by auto

lemma clean_ip_address:
  "clean ip_address_field s =
     (if s = [] then Inl [Blank]
      else if search ip_address_regex s
        then (if 15 < length s then Inl [MaxLength 15] else Inr s)
        else Inl (Invalid ''Incorrect IP address format'' ''invalid_ip_address''
                  # (if 15 < length s then [MaxLength 15] else [])))"
  by (simp add: clean_def validate_def run_validators_def ip_address_field_def)

lemma clean_ip_address_dotted_quad:
  assumes "s = [] \<or> last s \<noteq> newline"
  shows "clean ip_address_field s = Inr s \<longleftrightarrow> spec_dotted_quad s"
proof (cases "s = []")
  case True
  then show ?thesis
    by (simp add: clean_ip_address spec_dotted_quad_def)
next
  case False
  show ?thesis
  proof (cases "spec_dotted_quad s")
    case True
    with assms have "search ip_address_regex s" by (simp add: search_no_trailing_newline)
    moreover from True have "length s \<le> 15" by (simp add: spec_dotted_quad_length)
    ultimately show ?thesis using True False by (simp add: clean_ip_address)
  next
    case no: False
    with assms have "\<not> search ip_address_regex s" by (simp add: search_no_trailing_newline)
    with no False show ?thesis by (simp add: clean_ip_address)
  qed
qed

lemmas regex_eval = search_def ip_address_regex_def in_range_def newline_def eval_nat_numeral

lemmas dotted_quad_eval = spec_dotted_quad_def octet_digits_def is_digit_def newline_def

text \<open>
  Claim C3, as the code has it. For a string that does not end in a newline, validation of
  \<^verbatim>\<open>ip_address\<close> accepts it exactly when it is a dotted quad of the specification's
  pattern. A rejected string that is not empty is rejected with the error
  \<^verbatim>\<open>Incorrect IP address format\<close> (code \<^verbatim>\<open>invalid_ip_address\<close>) first in its error list; the
  empty string is rejected as blank. \<^verbatim>\<open>999.1.1.1\<close> is accepted and \<^verbatim>\<open>192.168.0\<close> is rejected.
\<close>

theorem ip_address_validation:
  "(s = [] \<or> last s \<noteq> newline \<longrightarrow>
      (clean ip_address_field s = Inr s \<longleftrightarrow> spec_dotted_quad s)
      \<and> (s \<noteq> [] \<and> \<not> spec_dotted_quad s \<longrightarrow>
           (\<exists>es. clean ip_address_field s
              = Inl (Invalid ''Incorrect IP address format'' ''invalid_ip_address'' # es)))
      \<and> (s = [] \<longrightarrow> clean ip_address_field s = Inl [Blank]))
   \<and> clean ip_address_field ''999.1.1.1'' = Inr ''999.1.1.1''
   \<and> clean ip_address_field ''192.168.0''
       = Inl [Invalid ''Incorrect IP address format'' ''invalid_ip_address'']"
proof (intro conjI impI)
  assume "s = [] \<or> last s \<noteq> newline"
  then show "clean ip_address_field s = Inr s \<longleftrightarrow> spec_dotted_quad s"
    by (rule clean_ip_address_dotted_quad)
next
  assume nl: "s = [] \<or> last s \<noteq> newline" and "s \<noteq> [] \<and> \<not> spec_dotted_quad s"
  then have "\<not> search ip_address_regex s" "s \<noteq> []"
    by (simp_all add: search_no_trailing_newline)
  then show "\<exists>es. clean ip_address_field s
      = Inl (Invalid ''Incorrect IP address format'' ''invalid_ip_address'' # es)"
    by (simp add: clean_ip_address)
next
  assume "s = []"
  then show "clean ip_address_field s = Inl [Blank]" by (simp add: clean_ip_address)
next
  have "search ip_address_regex ''999.1.1.1''" by (simp add: regex_eval)
  then show "clean ip_address_field ''999.1.1.1'' = Inr ''999.1.1.1''"
    by (simp add: clean_ip_address)
next
  have "\<not> search ip_address_regex ''192.168.0''" by (simp add: regex_eval)
  then show "clean ip_address_field ''192.168.0''
      = Inl [Invalid ''Incorrect IP address format'' ''invalid_ip_address'']"
    by (simp add: clean_ip_address)
qed

theorem ip_address_validation_witness:
  "clean ip_address_field ''192.168.0.1'' = Inr ''192.168.0.1''
   \<and> (\<exists>es. clean ip_address_field ''192.168.0.256.''
         = Inl (Invalid ''Incorrect IP address format'' ''invalid_ip_address'' # es))"
proof -
  have 1: "last ''192.168.0.1'' \<noteq> newline" "spec_dotted_quad ''192.168.0.1''"
    by (simp_all add: dotted_quad_eval)
  have 2: "last ''192.168.0.256.'' \<noteq> newline" "''192.168.0.256.'' \<noteq> []"
    "\<not> spec_dotted_quad ''192.168.0.256.''"
    by (simp_all add: dotted_quad_eval)
  from ip_address_validation [of "''192.168.0.1''"] 1
  have "clean ip_address_field ''192.168.0.1'' = Inr ''192.168.0.1''" by blast
  moreover from ip_address_validation [of "''192.168.0.256.''"] 2
  have "\<exists>es. clean ip_address_field ''192.168.0.256.''
         = Inl (Invalid ''Incorrect IP address format'' ''invalid_ip_address'' # es)"
    by blast
  ultimately show ?thesis by blast
qed

text \<open>
  Claim C3 as stated fails on the empty string: it does not match the pattern, and it is
  rejected as blank, before any validator runs, not with the invalid-IP error.
\<close>

theorem ip_address_validation_counterexample:
  "\<not> spec_dotted_quad [] \<and> \<not> search ip_address_regex []
   \<and> clean ip_address_field [] = Inl [Blank]
   \<and> Invalid ''Incorrect IP address format'' ''invalid_ip_address'' \<notin> set [Blank]"
  by (simp add: regex_eval dotted_quad_eval clean_ip_address)

text \<open>
  Claim C10 at the input \<^verbatim>\<open>"111.111.111.111\n"\<close>: the pattern matches it, since \<^verbatim>\<open>$\<close> also
  matches before a final newline, and it has 16 characters, so the \<^verbatim>\<open>max_length=15\<close>
  validator rejects a string the regex validator accepts.
\<close>

theorem ip_address_regex_length_16:
  "search ip_address_regex (''111.111.111.111'' @ [newline])
   \<and> call_validator
        (RegexValidator ip_address_regex ''Incorrect IP address format'' ''invalid_ip_address'')
        (''111.111.111.111'' @ [newline]) = []
   \<and> length (''111.111.111.111'' @ [newline]) = 16
   \<and> call_validator (MaxLengthValidator 15) (''111.111.111.111'' @ [newline]) = [MaxLength 15]
   \<and> clean ip_address_field (''111.111.111.111'' @ [newline]) = Inl [MaxLength 15]"
proof -
  have "search ip_address_regex (''111.111.111.111'' @ [newline])"
    by (simp add: regex_eval)
  then show ?thesis by (simp add: clean_ip_address)
qed

text \<open>The same \<^verbatim>\<open>$\<close> lets a short dotted quad with a final newline through validation.\<close>

lemma clean_ip_address_trailing_newline:
  "clean ip_address_field (''1.1.1.1'' @ [newline]) = Inr (''1.1.1.1'' @ [newline])"
proof -
  have "search ip_address_regex (''1.1.1.1'' @ [newline])"
    by (simp add: regex_eval)
  then show ?thesis by (simp add: clean_ip_address)
qed

text \<open>Without a final newline the length bound never rejects what the pattern accepts.\<close>

lemma search_ip_address_regex_length:
  "search ip_address_regex s \<Longrightarrow> length s \<le> 16 \<and> (last s \<noteq> newline \<longrightarrow> length s \<le> 15)"
  unfolding search_ip_address_regex_iff
  using spec_dotted_quad_length by fastforce

subsection \<open>description and register_addresses\<close>

lemma clean_description: "s \<noteq> [] \<Longrightarrow> clean description_field s = Inr s"
  by (simp add: clean_def validate_def run_validators_def description_field_def)

lemma sample_db_eq:
  "sample_db =
     \<lparr>transductor_models = [(1, sample_model)], energy_transductors = [(1, sample_transductor)],
      energy_measurements = []\<rparr>"
  by (simp add: sample_db_def empty_db_def insert_transductor_model_def
      insert_energy_transductor_def pks_def sample_transductor_def)

text \<open>
  Claim C7 at a description of 151 characters: model validation accepts it, and the
  database stores it.
\<close>

theorem description_max_length_not_enforced:
  "length long_description = 151
   \<and> clean description_field long_description = Inr long_description
   \<and> execute (InsertTransductor 2
        (sample_transductor\<lparr>ip_address := ''1.1.1.2'', description := long_description\<rparr>))
        sample_db
      = (None, sample_db\<lparr>energy_transductors :=
           [(1, sample_transductor),
            (2, sample_transductor\<lparr>ip_address := ''1.1.1.2'',
                 description := long_description\<rparr>)]\<rparr>)"
proof -
  have "long_description \<noteq> []" by (simp add: long_description_def)
  then have "clean description_field long_description = Inr long_description"
    by (rule clean_description)
  moreover have "length long_description = 151" by (simp add: long_description_def)
  ultimately show ?thesis
    by (simp add: sample_db_eq insert_energy_transductor_def pks_def sample_transductor_def)
qed

text \<open>
  Claim C6 at a register map with one three-element entry: model validation accepts it,
  and the database stores it.
\<close>

theorem register_addresses_pair_not_enforced:
  "clean_register_addresses [[68, 0, 1]] = Inr [[68, 0, 1]]
   \<and> execute (InsertModel 1 (sample_model\<lparr>register_addresses := [[68, 0, 1]]\<rparr>))
        (empty_db :: pyfloat db)
      = (None, empty_db\<lparr>transductor_models :=
           [(1, sample_model\<lparr>register_addresses := [[68, 0, 1]]\<rparr>)]\<rparr>)"
  by (simp add: clean_register_addresses_def array_clean_def array_validate_def
      array_run_validators_def inner_array_validate_def inner_array_run_validators_def
      integer_run_validators_def insert_transductor_model_def pks_def empty_db_def)

end
